theory Spec2Isabelle
  imports Main
begin

section \<open>Python values\<close>

text \<open>
  The program is a Python script (\<^verbatim>\<open>main.py\<close>) that reads the process environment and
  \<^verbatim>\<open>sys.argv\<close>, sends at most one HTTP request through the \<^verbatim>\<open>requests\<close> library and
  prints a report. The values it handles are the values \<^verbatim>\<open>resp.json()\<close> can return:
  \<^verbatim>\<open>None\<close>, booleans, unbounded integers, floats, strings, lists and dicts with string keys.
  A float is kept as sign, mantissa and binary exponent (or an infinity, or not-a-number):
  the program only ever tests a float for being zero. A Python \<^verbatim>\<open>str\<close> is a \<^typ>\<open>string\<close>;
  the non-ASCII characters of the program's own literals are spelled as their UTF-8 bytes.
  A dict is an association list read with \<^const>\<open>map_of\<close>.
\<close>

datatype pyfloat = Finite bool nat int | Infinity bool | NaN

datatype json =
    JNull
  | JBool bool
  | JInt int
  | JFloat pyfloat
  | JStr string
  | JList "json list"
  | JObj "(string \<times> json) list"

text \<open>Python's truth value of an object, as \<^verbatim>\<open>or\<close>, \<^verbatim>\<open>not\<close> and \<^verbatim>\<open>if\<close> use it.\<close>

fun float_nonzero :: "pyfloat \<Rightarrow> bool" where
  "float_nonzero (Finite s m e) = (m \<noteq> 0)"
| "float_nonzero (Infinity s) = True"
| "float_nonzero NaN = True"

fun truthy :: "json \<Rightarrow> bool" where
  "truthy JNull = False"
| "truthy (JBool b) = b"
| "truthy (JInt n) = (n \<noteq> 0)"
| "truthy (JFloat f) = float_nonzero f"
| "truthy (JStr s) = (s \<noteq> [])"
| "truthy (JList xs) = (xs \<noteq> [])"
| "truthy (JObj kvs) = (kvs \<noteq> [])"

text \<open>\<^verbatim>\<open>a or b\<close>: the first operand when it is true, else the second.\<close>

definition py_or :: "json \<Rightarrow> json \<Rightarrow> json" where
  "py_or a b = (if truthy a then a else b)"

text \<open>\<^verbatim>\<open>d.get(k)\<close> and \<^verbatim>\<open>d.get(k, default)\<close> on a dict.\<close>

definition dict_get :: "(string \<times> json) list \<Rightarrow> string \<Rightarrow> json" where
  "dict_get d k = (case map_of d k of None \<Rightarrow> JNull | Some v \<Rightarrow> v)"

definition dict_get_default :: "(string \<times> json) list \<Rightarrow> string \<Rightarrow> json \<Rightarrow> json" where
  "dict_get_default d k dflt = (case map_of d k of None \<Rightarrow> dflt | Some v \<Rightarrow> v)"

text \<open>
  The values of \<^verbatim>\<open>os.environ.get(...)\<close> and of \<^verbatim>\<open>sys.argv[i] if ... else None\<close> are a
  string or \<^verbatim>\<open>None\<close>: a \<^typ>\<open>string option\<close>, true when it is a non-empty string.
\<close>

fun truthy_str :: "string option \<Rightarrow> bool" where
  "truthy_str None = False"
| "truthy_str (Some s) = (s \<noteq> [])"

definition or_str :: "string option \<Rightarrow> string option \<Rightarrow> string option" where
  "or_str a b = (if truthy_str a then a else b)"

text \<open>\<^verbatim>\<open>s.rstrip('/')\<close>: every trailing slash is removed.\<close>

definition rstrip_slash :: "string \<Rightarrow> string" where
  "rstrip_slash s = rev (dropWhile (\<lambda>c. c = CHR ''/'') (rev s))"

text \<open>
  What \<^verbatim>\<open>for assistant in assistants\<close> iterates over: the elements of a list, the
  one-character strings of a string, the keys of a dict; any other value is not iterable
  and the loop raises \<^verbatim>\<open>TypeError\<close>.
\<close>

fun py_iter :: "json \<Rightarrow> json list option" where
  "py_iter (JList xs) = Some xs"
| "py_iter (JStr s) = Some (map (\<lambda>c. JStr [c]) s)"
| "py_iter (JObj kvs) = Some (map JStr (remdups (map fst kvs)))"
| "py_iter JNull = None"
| "py_iter (JBool b) = None"
| "py_iter (JInt n) = None"
| "py_iter (JFloat f) = None"

section \<open>Effects: standard output, the network, exceptions\<close>

text \<open>
  One call of \<^verbatim>\<open>print\<close> is one \<^emph>\<open>line\<close>: the pieces of its (f-)string in order, literal
  text as \<open>Lit\<close> and every interpolated \<^verbatim>\<open>{expression}\<close> as \<open>Fmt\<close> of its value, which
  Python renders with \<^verbatim>\<open>str\<close>.
\<close>

datatype seg = Lit string | Fmt json

type_synonym line = "seg list"

datatype http_method = GET | PATCH

record request =
  req_method :: http_method
  req_url :: string
  req_headers :: "(string \<times> string) list"
  req_json :: "json option"
  req_timeout :: nat

text \<open>
  A response as the program reads it: \<^verbatim>\<open>resp.status_code\<close>, \<^verbatim>\<open>resp.text\<close> and the result
  of \<^verbatim>\<open>resp.json()\<close>, \<open>None\<close> when the body is not JSON and the call raises.
\<close>

record response =
  status_code :: int
  resp_text :: string
  resp_json :: "json option"

text \<open>
  The remote service and the transport: the response to a request, or \<open>None\<close> when
  \<^verbatim>\<open>requests\<close> raises instead of returning (timeout, connection failure, bad URL).
\<close>

type_synonym network = "request \<Rightarrow> response option"

datatype exn = RequestException | JSONDecodeError | AttributeError | TypeError

datatype outcome = Exit int | Raised exn

text \<open>
  A run: how it ended (the value returned, which becomes the exit code, or an uncaught
  exception), the lines printed and the requests handed to \<^verbatim>\<open>requests\<close>, both in order.
\<close>

record run =
  result :: outcome
  printed :: "line list"
  sent :: "request list"

section \<open>The program\<close>

definition nl :: string where
  "nl = [CHR 0x0A]"

definition usage_text :: string where
  "usage_text =
     ''Usage:'' @ nl @
     ''  List assistants:'' @ nl @
     ''    VAPI_API_KEY=... python main.py --list'' @ nl @
     ''    VAPI_API_KEY=... VAPI_LIST=1 python main.py'' @ nl @
     ''  Update assistant with idle messages:'' @ nl @
     ''    VAPI_API_KEY=... VAPI_ASSISTANT_ID=... python main.py --update-idle'' @ nl @
     ''  Get specific assistant details:'' @ nl @
     ''    VAPI_API_KEY=... VAPI_ASSISTANT_ID=... python main.py --get''"

text \<open>U+274C, U+2705, U+26A0 U+FE0F and U+2192 in UTF-8.\<close>

definition cross_mark :: string where
  "cross_mark = [CHR 0xE2, CHR 0x9D, CHR 0x8C]"

definition check_mark :: string where
  "check_mark = [CHR 0xE2, CHR 0x9C, CHR 0x85]"

definition warning_sign :: string where
  "warning_sign = [CHR 0xE2, CHR 0x9A, CHR 0xA0, CHR 0xEF, CHR 0xB8, CHR 0x8F]"

definition arrow :: string where
  "arrow = [CHR 0xE2, CHR 0x86, CHR 0x92]"

text \<open>\<^verbatim>\<open>print(f"Error {resp.status_code}: {resp.text}")\<close>\<close>

definition error_line :: "response \<Rightarrow> line" where
  "error_line resp =
     [Lit ''Error '', Fmt (JInt (status_code resp)), Lit '': '', Fmt (JStr (resp_text resp))]"

text \<open>
  The body of the loop of \<^verbatim>\<open>list_assistants\<close>. No value that \<^verbatim>\<open>resp.json()\<close> returns
  other than a dict has an attribute \<^verbatim>\<open>name\<close> or \<^verbatim>\<open>id\<close>, so \<^verbatim>\<open>getattr\<close> gives its
  default \<^verbatim>\<open>None\<close>.
\<close>

fun assistant_field :: "json \<Rightarrow> string \<Rightarrow> json" where
  "assistant_field (JObj d) k = dict_get d k"
| "assistant_field _ k = JNull"

definition show_assistant :: "json \<Rightarrow> line list" where
  "show_assistant assistant =
     (let name = assistant_field assistant ''name'';
          a_id = assistant_field assistant ''id''
      in [[Lit ''Name: '', Fmt name],
          [Lit ''ID:   '', Fmt a_id],
          [Lit (replicate 40 CHR ''-'')]])"

text \<open>
  \<^verbatim>\<open>data if isinstance(data, list) else data.get("assistants") or data.get("data") or []\<close>:
  \<^verbatim>\<open>.get\<close> exists on a dict only.
\<close>

fun select_assistants :: "json \<Rightarrow> exn + json" where
  "select_assistants (JList xs) = Inr (JList xs)"
| "select_assistants (JObj d) =
     Inr (py_or (py_or (dict_get d ''assistants'') (dict_get d ''data'')) (JList []))"
| "select_assistants _ = Inl AttributeError"

text \<open>
  The request of each operation: its \<^verbatim>\<open>url\<close> and \<^verbatim>\<open>headers\<close> and the other arguments of
  its call of \<^verbatim>\<open>requests.get\<close> or \<^verbatim>\<open>requests.patch\<close>.
\<close>

definition list_request :: "string \<Rightarrow> string \<Rightarrow> request" where
  "list_request api_key api_url =
     (let url = rstrip_slash api_url @ ''/assistant'';
          headers = [(''Authorization'', ''Bearer '' @ api_key)]
      in \<lparr>req_method = GET, req_url = url, req_headers = headers,
          req_json = None, req_timeout = 30\<rparr>)"

definition get_request :: "string \<Rightarrow> string \<Rightarrow> string \<Rightarrow> request" where
  "get_request api_key api_url assistant_id =
     (let url = rstrip_slash api_url @ ''/assistant/'' @ assistant_id;
          headers = [(''Authorization'', ''Bearer '' @ api_key)]
      in \<lparr>req_method = GET, req_url = url, req_headers = headers,
          req_json = None, req_timeout = 30\<rparr>)"

definition update_data :: json where
  "update_data =
     JObj [(''messagePlan'',
            JObj [(''idleMessages'', JList [JStr ''Are you still there?'']),
                  (''idleTimeoutSeconds'', JInt 10),
                  (''idleMessageMaxSpokenCount'', JInt 2),
                  (''idleMessageResetCountOnUserSpeechEnabled'', JBool True)]),
           (''silenceTimeoutSeconds'', JInt 30)]"

definition update_request :: "string \<Rightarrow> string \<Rightarrow> string \<Rightarrow> request" where
  "update_request api_key api_url assistant_id =
     (let url = rstrip_slash api_url @ ''/assistant/'' @ assistant_id;
          headers = [(''Authorization'', ''Bearer '' @ api_key),
                     (''Content-Type'', ''application/json'')]
      in \<lparr>req_method = PATCH, req_url = url, req_headers = headers,
          req_json = Some update_data, req_timeout = 30\<rparr>)"

definition list_assistants :: "network \<Rightarrow> string \<Rightarrow> string \<Rightarrow> run" where
  "list_assistants net api_key api_url =
     (let req = list_request api_key api_url
      in case net req of
           None \<Rightarrow> \<lparr>result = Raised RequestException, printed = [], sent = [req]\<rparr>
         | Some resp \<Rightarrow>
             if status_code resp \<noteq> 200
             then \<lparr>result = Exit 1, printed = [error_line resp], sent = [req]\<rparr>
             else (case resp_json resp of
                 None \<Rightarrow> \<lparr>result = Raised JSONDecodeError, printed = [], sent = [req]\<rparr>
               | Some data \<Rightarrow>
                   (case select_assistants data of
                      Inl e \<Rightarrow> \<lparr>result = Raised e, printed = [], sent = [req]\<rparr>
                    | Inr assistants \<Rightarrow>
                        (let out = [[Lit (nl @ ''=== Your Assistants ==='')]]
                         in case py_iter assistants of
                              None \<Rightarrow> \<lparr>result = Raised TypeError, printed = out, sent = [req]\<rparr>
                            | Some items \<Rightarrow>
                                \<lparr>result = Exit 0,
                                 printed = out @ concat (map show_assistant items),
                                 sent = [req]\<rparr>))))"

definition get_assistant :: "network \<Rightarrow> string \<Rightarrow> string \<Rightarrow> string \<Rightarrow> run" where
  "get_assistant net api_key api_url assistant_id =
     (let req = get_request api_key api_url assistant_id
      in case net req of
           None \<Rightarrow> \<lparr>result = Raised RequestException, printed = [], sent = [req]\<rparr>
         | Some resp \<Rightarrow>
             if status_code resp \<noteq> 200
             then \<lparr>result = Exit 1, printed = [error_line resp], sent = [req]\<rparr>
             else (case resp_json resp of
                 None \<Rightarrow> \<lparr>result = Raised JSONDecodeError, printed = [], sent = [req]\<rparr>
               | Some (JObj assistant) \<Rightarrow>
                   (let out =
                          [[Lit (nl @ ''=== Assistant Details ==='')],
                           [Lit ''Name: '', Fmt (dict_get assistant ''name'')],
                           [Lit ''ID: '', Fmt (dict_get assistant ''id'')],
                           [Lit ''Silence Timeout: '',
                            Fmt (dict_get_default assistant ''silenceTimeoutSeconds'' (JInt 30)),
                            Lit '' seconds'']]
                    in case dict_get_default assistant ''messagePlan'' (JObj []) of
                         JObj message_plan \<Rightarrow>
                           if truthy (dict_get message_plan ''idleMessages'')
                           then \<lparr>result = Exit 0,
                                 printed = out @
                                   [[Lit (nl @ ''Idle Messages Configuration:'')],
                                    [Lit ''  Messages: '',
                                     Fmt (dict_get message_plan ''idleMessages'')],
                                    [Lit ''  Timeout: '',
                                     Fmt (dict_get message_plan ''idleTimeoutSeconds''),
                                     Lit '' seconds''],
                                    [Lit ''  Max Count: '',
                                     Fmt (dict_get message_plan ''idleMessageMaxSpokenCount'')]],
                                 sent = [req]\<rparr>
                           else \<lparr>result = Exit 0,
                                 printed = out @
                                   [[Lit (nl @ warning_sign @ ''  No idle messages configured'')]],
                                 sent = [req]\<rparr>
                       | _ \<Rightarrow> \<lparr>result = Raised AttributeError, printed = out, sent = [req]\<rparr>)
               | Some _ \<Rightarrow>
                   \<lparr>result = Raised AttributeError,
                    printed = [[Lit (nl @ ''=== Assistant Details ==='')]],
                    sent = [req]\<rparr>))"

definition update_assistant_idle_messages ::
    "network \<Rightarrow> string \<Rightarrow> string \<Rightarrow> string \<Rightarrow> run" where
  "update_assistant_idle_messages net api_key api_url assistant_id =
     (let req = update_request api_key api_url assistant_id;
          out = [[Lit (nl @ ''Updating assistant ''), Fmt (JStr assistant_id),
                  Lit '' with idle messages...'']]
      in case net req of
           None \<Rightarrow> \<lparr>result = Raised RequestException, printed = out, sent = [req]\<rparr>
         | Some resp \<Rightarrow>
             if status_code resp \<noteq> 200
             then \<lparr>result = Exit 1, printed = out @ [error_line resp], sent = [req]\<rparr>
             else (case resp_json resp of
                 None \<Rightarrow> \<lparr>result = Raised JSONDecodeError, printed = out, sent = [req]\<rparr>
               | Some updated \<Rightarrow>
                   \<lparr>result = Exit 0,
                    printed = out @
                      [[Lit (check_mark @ '' Successfully updated assistant!'')],
                       [Lit (''Timeline: 10s '' @ arrow @ '' First prompt, 20s '' @ arrow @
                             '' Second prompt, 30s '' @ arrow @ '' End call'')]],
                    sent = [req]\<rparr>))"

text \<open>
  \<^verbatim>\<open>main\<close>, on the environment as \<^verbatim>\<open>load_dotenv()\<close> leaves it, the whole of \<^verbatim>\<open>sys.argv\<close>
  (the script's name first) and the network. Its first three assignments are
  \<open>resolve_api_key\<close>, \<open>resolve_api_url\<close> and \<open>resolve_assistant_id\<close>. The value of \<^verbatim>\<open>api_key\<close> and of
  \<^verbatim>\<open>assistant_id\<close> is read with \<^const>\<open>the\<close> only where the source has tested it true.
\<close>

definition resolve_api_key :: "(string \<rightharpoonup> string) \<Rightarrow> string list \<Rightarrow> string option" where
  "resolve_api_key environ argv =
     or_str (environ ''VAPI_API_KEY'') (if length argv > 1 then Some (argv ! 1) else None)"

definition resolve_api_url :: "(string \<rightharpoonup> string) \<Rightarrow> string" where
  "resolve_api_url environ =
     (case environ ''VAPI_API_URL'' of None \<Rightarrow> ''https://api.vapi.ai'' | Some u \<Rightarrow> u)"

definition resolve_assistant_id :: "(string \<rightharpoonup> string) \<Rightarrow> string list \<Rightarrow> string option" where
  "resolve_assistant_id environ argv =
     or_str (environ ''VAPI_ASSISTANT_ID'') (if length argv > 2 then Some (argv ! 2) else None)"

definition main :: "(string \<rightharpoonup> string) \<Rightarrow> string list \<Rightarrow> network \<Rightarrow> run" where
  "main environ argv net =
     (let api_key = resolve_api_key environ argv;
          api_url = resolve_api_url environ;
          assistant_id = resolve_assistant_id environ argv
      in if \<not> truthy_str api_key
         then \<lparr>result = Exit 2,
               printed = [[Lit (cross_mark @ '' API key required'')], [Lit usage_text]],
               sent = []\<rparr>
         else if ''--list'' \<in> set argv
                 \<or> environ ''VAPI_LIST'' \<in> {Some ''1'', Some ''true'', Some ''TRUE''}
                 \<or> \<not> truthy_str assistant_id
         then list_assistants net (the api_key) api_url
         else if ''--get'' \<in> set argv
         then (if \<not> truthy_str assistant_id
               then \<lparr>result = Exit 2,
                     printed = [[Lit (cross_mark @ '' VAPI_ASSISTANT_ID required'')]],
                     sent = []\<rparr>
               else get_assistant net (the api_key) api_url (the assistant_id))
         else if ''--update-idle'' \<in> set argv
         then (if \<not> truthy_str assistant_id
               then \<lparr>result = Exit 2,
                     printed = [[Lit (cross_mark @ '' VAPI_ASSISTANT_ID required'')],
                                [Lit ''First run with --list to find your assistant ID'']],
                     sent = []\<rparr>
               else update_assistant_idle_messages net (the api_key) api_url (the assistant_id))
         else if truthy_str assistant_id
         then get_assistant net (the api_key) api_url (the assistant_id)
         else \<lparr>result = Exit 2, printed = [[Lit usage_text]], sent = []\<rparr>)"

section \<open>Properties\<close>

subsection \<open>Auxiliary facts\<close>

lemma truthy_str_Some: "truthy_str k \<Longrightarrow> \<exists>s. k = Some s \<and> s \<noteq> []"
  by (cases k) auto

text \<open>Every operation hands exactly its one request to the network, whatever comes back.\<close>

lemma sent_list_assistants: "sent (list_assistants net k u) = [list_request k u]"
  by (simp add: list_assistants_def Let_def split: option.splits sum.splits)

lemma sent_get_assistant: "sent (get_assistant net k u a) = [get_request k u a]"
  by (simp add: get_assistant_def Let_def split: option.splits json.splits)

lemma sent_update: "sent (update_assistant_idle_messages net k u a) = [update_request k u a]"
  by (simp add: update_assistant_idle_messages_def Let_def split: option.splits)

lemma list_assistants_not_2: "result (list_assistants net k u) \<noteq> Exit 2"
  by (simp add: list_assistants_def Let_def split: option.splits sum.splits)

lemma get_assistant_not_2: "result (get_assistant net k u a) \<noteq> Exit 2"
  by (simp add: get_assistant_def Let_def split: option.splits json.splits)

lemma update_not_2: "result (update_assistant_idle_messages net k u a) \<noteq> Exit 2"
  by (simp add: update_assistant_idle_messages_def Let_def split: option.splits)

lemma main_with_key:
  assumes "resolve_api_key environ argv = Some k" and "k \<noteq> []"
  shows "main environ argv net =
     (if ''--list'' \<in> set argv
          \<or> environ ''VAPI_LIST'' \<in> {Some ''1'', Some ''true'', Some ''TRUE''}
          \<or> \<not> truthy_str (resolve_assistant_id environ argv)
      then list_assistants net k (resolve_api_url environ)
      else if ''--get'' \<in> set argv
      then get_assistant net k (resolve_api_url environ) (the (resolve_assistant_id environ argv))
      else if ''--update-idle'' \<in> set argv
      then update_assistant_idle_messages net k (resolve_api_url environ)
             (the (resolve_assistant_id environ argv))
      else get_assistant net k (resolve_api_url environ) (the (resolve_assistant_id environ argv)))"
  using assms by (simp add: main_def Let_def)

lemma main_exit_2:
  "result (main environ argv net) = Exit 2 \<longleftrightarrow> \<not> truthy_str (resolve_api_key environ argv)"
proof (cases "truthy_str (resolve_api_key environ argv)")
  case True
  then obtain k where k: "resolve_api_key environ argv = Some k" "k \<noteq> []"
    using truthy_str_Some by blast
  show ?thesis
    using True
    by (simp add: main_with_key [OF k] list_assistants_not_2 get_assistant_not_2 update_not_2
          del: truthy_str.simps)
next
  case False
  then show ?thesis by (simp add: main_def)
qed

text \<open>
  Two bodies that a status 200 can carry and that end the run with an exception after
  part of the report is printed: a List body that is neither a sequence nor an object,
  and a Get body whose \<^verbatim>\<open>messagePlan\<close> is \<^verbatim>\<open>null\<close>.
\<close>

lemma list_assistants_scalar_body:
  "list_assistants (\<lambda>r. Some \<lparr>status_code = 200, resp_text = t, resp_json = Some (JInt 5)\<rparr>) k u =
     \<lparr>result = Raised AttributeError, printed = [], sent = [list_request k u]\<rparr>"
  by (simp add: list_assistants_def)

lemma get_assistant_null_message_plan:
  "get_assistant
     (\<lambda>r. Some \<lparr>status_code = 200, resp_text = t,
                resp_json = Some (JObj [(''messagePlan'', JNull)])\<rparr>) k u a =
     \<lparr>result = Raised AttributeError,
      printed = [[Lit (nl @ ''=== Assistant Details ==='')],
                 [Lit ''Name: '', Fmt JNull],
                 [Lit ''ID: '', Fmt JNull],
                 [Lit ''Silence Timeout: '', Fmt (JInt 30), Lit '' seconds'']],
      sent = [get_request k u a]\<rparr>"
  by (simp add: get_assistant_def dict_get_def dict_get_default_def)

subsection \<open>Flags that need an assistant id\<close>

text \<open>
  C1. The specification has the program return 2 and send nothing when \<^verbatim>\<open>--get\<close> (or
  \<^verbatim>\<open>--update-idle\<close>) is present and no assistant id is resolved, and the source has a
  guard for it under each flag. The program does otherwise: with
  the key in the environment and \<^verbatim>\<open>sys.argv = ['main.py', '--get']\<close> (or
  \<^verbatim>\<open>'--update-idle'\<close>) no assistant id is resolved and \<^verbatim>\<open>main\<close> is the List operation,
  which sends its GET and never returns 2. In general \<^verbatim>\<open>main\<close> returns 2 exactly when
  no API key is resolved, so the two guards \<^verbatim>\<open>if not assistant_id\<close> under the flags are
  never taken.
\<close>

theorem flag_without_assistant_id_runs_list:
  "(main (Map.empty(''VAPI_API_KEY'' \<mapsto> ''k'')) [''main.py'', ''--get''] net =
      list_assistants net ''k'' ''https://api.vapi.ai''
    \<and> main (Map.empty(''VAPI_API_KEY'' \<mapsto> ''k'')) [''main.py'', ''--update-idle''] net =
      list_assistants net ''k'' ''https://api.vapi.ai''
    \<and> resolve_assistant_id (Map.empty(''VAPI_API_KEY'' \<mapsto> ''k'')) [''main.py'', ''--get''] = None
    \<and> resolve_assistant_id (Map.empty(''VAPI_API_KEY'' \<mapsto> ''k'')) [''main.py'', ''--update-idle'']
        = None
    \<and> sent (list_assistants net ''k'' ''https://api.vapi.ai'') =
          [\<lparr>req_method = GET, req_url = ''https://api.vapi.ai/assistant'',
            req_headers = [(''Authorization'', ''Bearer k'')],
            req_json = None, req_timeout = 30\<rparr>]
    \<and> result (list_assistants net ''k'' ''https://api.vapi.ai'') \<noteq> Exit 2)
   \<and> (result (main environ argv net) = Exit 2) = (\<not> truthy_str (resolve_api_key environ argv))"
proof (rule conjI)
  show "main (Map.empty(''VAPI_API_KEY'' \<mapsto> ''k'')) [''main.py'', ''--get''] net =
      list_assistants net ''k'' ''https://api.vapi.ai''
    \<and> main (Map.empty(''VAPI_API_KEY'' \<mapsto> ''k'')) [''main.py'', ''--update-idle''] net =
      list_assistants net ''k'' ''https://api.vapi.ai''
    \<and> resolve_assistant_id (Map.empty(''VAPI_API_KEY'' \<mapsto> ''k'')) [''main.py'', ''--get''] = None
    \<and> resolve_assistant_id (Map.empty(''VAPI_API_KEY'' \<mapsto> ''k'')) [''main.py'', ''--update-idle'']
        = None
    \<and> sent (list_assistants net ''k'' ''https://api.vapi.ai'') =
          [\<lparr>req_method = GET, req_url = ''https://api.vapi.ai/assistant'',
            req_headers = [(''Authorization'', ''Bearer k'')],
            req_json = None, req_timeout = 30\<rparr>]
    \<and> result (list_assistants net ''k'' ''https://api.vapi.ai'') \<noteq> Exit 2"
    by (simp add: main_def resolve_api_key_def resolve_api_url_def resolve_assistant_id_def
          or_str_def sent_list_assistants list_assistants_not_2 list_request_def rstrip_slash_def)
next
  show "(result (main environ argv net) = Exit 2) = (\<not> truthy_str (resolve_api_key environ argv))"
    by (rule main_exit_2)
qed

subsection \<open>HTTP status and exit code\<close>




subsection \<open>The body of the PATCH request\<close>

text \<open>
  C3. The UpdateIdle operation sends exactly one request, a PATCH to
  \<^verbatim>\<open>{base}/assistant/{assistant_id}\<close> whose JSON body is the fixed payload, for every
  key, URL, assistant id and network; and so does \<^verbatim>\<open>main\<close> whenever the key and the
  assistant id are resolved and the flags select UpdateIdle.
\<close>

theorem update_idle_patch_body:
  "sent (update_assistant_idle_messages net api_key api_url assistant_id) =
     [\<lparr>req_method = PATCH,
       req_url = rstrip_slash api_url @ ''/assistant/'' @ assistant_id,
       req_headers = [(''Authorization'', ''Bearer '' @ api_key),
                      (''Content-Type'', ''application/json'')],
       req_json = Some (JObj
         [(''messagePlan'',
           JObj [(''idleMessages'', JList [JStr ''Are you still there?'']),
                 (''idleTimeoutSeconds'', JInt 10),
                 (''idleMessageMaxSpokenCount'', JInt 2),
                 (''idleMessageResetCountOnUserSpeechEnabled'', JBool True)]),
          (''silenceTimeoutSeconds'', JInt 30)]),
       req_timeout = 30\<rparr>]
   \<and> (resolve_api_key environ argv = Some k \<and> k \<noteq> []
        \<and> resolve_assistant_id environ argv = Some a \<and> a \<noteq> []
        \<and> ''--list'' \<notin> set argv
        \<and> environ ''VAPI_LIST'' \<notin> {Some ''1'', Some ''true'', Some ''TRUE''}
        \<and> ''--get'' \<notin> set argv
        \<and> ''--update-idle'' \<in> set argv
      \<longrightarrow> sent (main environ argv net) =
     [\<lparr>req_method = PATCH,
       req_url = rstrip_slash (resolve_api_url environ) @ ''/assistant/'' @ a,
       req_headers = [(''Authorization'', ''Bearer '' @ k),
                      (''Content-Type'', ''application/json'')],
       req_json = Some (JObj
         [(''messagePlan'',
           JObj [(''idleMessages'', JList [JStr ''Are you still there?'']),
                 (''idleTimeoutSeconds'', JInt 10),
                 (''idleMessageMaxSpokenCount'', JInt 2),
                 (''idleMessageResetCountOnUserSpeechEnabled'', JBool True)]),
          (''silenceTimeoutSeconds'', JInt 30)]),
       req_timeout = 30\<rparr>])"
  by (auto simp: main_with_key sent_update update_request_def update_data_def)

theorem update_idle_patch_body_witness:
  "map req_json (sent (main (Map.empty(''VAPI_API_KEY'' \<mapsto> ''k'', ''VAPI_ASSISTANT_ID'' \<mapsto> ''a7''))
        [''main.py'', ''--update-idle''] (\<lambda>r. None))) =
     [Some (JObj
         [(''messagePlan'',
           JObj [(''idleMessages'', JList [JStr ''Are you still there?'']),
                 (''idleTimeoutSeconds'', JInt 10),
                 (''idleMessageMaxSpokenCount'', JInt 2),
                 (''idleMessageResetCountOnUserSpeechEnabled'', JBool True)]),
          (''silenceTimeoutSeconds'', JInt 30)])]
   \<and> map req_url (sent (main (Map.empty(''VAPI_API_KEY'' \<mapsto> ''k'', ''VAPI_ASSISTANT_ID'' \<mapsto> ''a7''))
        [''main.py'', ''--update-idle''] (\<lambda>r. None))) = [''https://api.vapi.ai/assistant/a7'']"
proof -
  let ?e = "Map.empty(''VAPI_API_KEY'' \<mapsto> ''k'', ''VAPI_ASSISTANT_ID'' \<mapsto> ''a7'')"
  let ?a = "[''main.py'', ''--update-idle'']"
  have h: "resolve_api_key ?e ?a = Some ''k'' \<and> ''k'' \<noteq> []
        \<and> resolve_assistant_id ?e ?a = Some ''a7'' \<and> ''a7'' \<noteq> []
        \<and> ''--list'' \<notin> set ?a
        \<and> ?e ''VAPI_LIST'' \<notin> {Some ''1'', Some ''true'', Some ''TRUE''}
        \<and> ''--get'' \<notin> set ?a
        \<and> ''--update-idle'' \<in> set ?a"
    by (simp add: resolve_api_key_def resolve_assistant_id_def or_str_def)
  have u: "rstrip_slash (resolve_api_url ?e) = ''https://api.vapi.ai''"
    by (simp add: resolve_api_url_def rstrip_slash_def)
  from update_idle_patch_body [of "\<lambda>r. None" "''k''" "''u''" "''a7''" ?e ?a "''k''" "''a7''"] h
  have "sent (main ?e ?a (\<lambda>r. None)) =
     [\<lparr>req_method = PATCH,
       req_url = rstrip_slash (resolve_api_url ?e) @ ''/assistant/'' @ ''a7'',
       req_headers = [(''Authorization'', ''Bearer '' @ ''k''),
                      (''Content-Type'', ''application/json'')],
       req_json = Some (JObj
         [(''messagePlan'',
           JObj [(''idleMessages'', JList [JStr ''Are you still there?'']),
                 (''idleTimeoutSeconds'', JInt 10),
                 (''idleMessageMaxSpokenCount'', JInt 2),
                 (''idleMessageResetCountOnUserSpeechEnabled'', JBool True)]),
          (''silenceTimeoutSeconds'', JInt 30)]),
       req_timeout = 30\<rparr>]"
    by blast
  then show ?thesis by (simp add: u)
qed

subsection \<open>When List runs\<close>

text \<open>
  C4. With an API key resolved, \<^verbatim>\<open>main\<close> sends the List request, a GET to
  \<^verbatim>\<open>{base}/assistant\<close>, if and only if \<^verbatim>\<open>--list\<close> is in \<^verbatim>\<open>sys.argv\<close>, or
  \<^verbatim>\<open>VAPI_LIST\<close> is \<^verbatim>\<open>1\<close>, \<^verbatim>\<open>true\<close> or \<^verbatim>\<open>TRUE\<close>, or no assistant id is resolved; under
  that condition \<^verbatim>\<open>main\<close> is the List operation; and the List operation sends exactly
  that one request.
\<close>

theorem list_runs_iff:
  assumes "resolve_api_key environ argv = Some k" and "k \<noteq> []"
  shows "((sent (main environ argv net) =
            [\<lparr>req_method = GET,
              req_url = rstrip_slash (resolve_api_url environ) @ ''/assistant'',
              req_headers = [(''Authorization'', ''Bearer '' @ k)],
              req_json = None, req_timeout = 30\<rparr>])
          \<longleftrightarrow>
          (''--list'' \<in> set argv
           \<or> environ ''VAPI_LIST'' \<in> {Some ''1'', Some ''true'', Some ''TRUE''}
           \<or> \<not> truthy_str (resolve_assistant_id environ argv)))
       \<and> ((''--list'' \<in> set argv
           \<or> environ ''VAPI_LIST'' \<in> {Some ''1'', Some ''true'', Some ''TRUE''}
           \<or> \<not> truthy_str (resolve_assistant_id environ argv))
          \<longrightarrow> main environ argv net = list_assistants net k (resolve_api_url environ))
       \<and> sent (list_assistants net k (resolve_api_url environ)) =
            [\<lparr>req_method = GET,
              req_url = rstrip_slash (resolve_api_url environ) @ ''/assistant'',
              req_headers = [(''Authorization'', ''Bearer '' @ k)],
              req_json = None, req_timeout = 30\<rparr>]"
proof -
  let ?c = "''--list'' \<in> set argv
           \<or> environ ''VAPI_LIST'' \<in> {Some ''1'', Some ''true'', Some ''TRUE''}
           \<or> \<not> truthy_str (resolve_assistant_id environ argv)"
  let ?r = "\<lparr>req_method = GET,
              req_url = rstrip_slash (resolve_api_url environ) @ ''/assistant'',
              req_headers = [(''Authorization'', ''Bearer '' @ k)],
              req_json = None, req_timeout = 30\<rparr>"
  have l: "sent (list_assistants net k (resolve_api_url environ)) = [?r]"
    by (simp add: sent_list_assistants list_request_def)
  have g: "get_request k (resolve_api_url environ) a \<noteq> ?r" for a
    by (simp add: get_request_def)
  have u: "update_request k (resolve_api_url environ) a \<noteq> ?r" for a
    by (simp add: update_request_def)
  have m: "?c \<Longrightarrow> main environ argv net = list_assistants net k (resolve_api_url environ)"
    by (simp add: main_with_key [OF assms])
  have n: "\<not> ?c \<Longrightarrow> sent (main environ argv net) \<noteq> [?r]"
    using g u by (simp add: main_with_key [OF assms] sent_get_assistant sent_update del: truthy_str.simps)
  show ?thesis using l m n by metis
qed

theorem list_runs_iff_witness:
  "sent (main (Map.empty(''VAPI_API_KEY'' \<mapsto> ''k'')) [''main.py''] (\<lambda>r. None)) =
     [\<lparr>req_method = GET, req_url = ''https://api.vapi.ai/assistant'',
       req_headers = [(''Authorization'', ''Bearer k'')],
       req_json = None, req_timeout = 30\<rparr>]
   \<and> sent (main (Map.empty(''VAPI_API_KEY'' \<mapsto> ''k'', ''VAPI_ASSISTANT_ID'' \<mapsto> ''a7''))
        [''main.py''] (\<lambda>r. None)) \<noteq>
     [\<lparr>req_method = GET, req_url = ''https://api.vapi.ai/assistant'',
       req_headers = [(''Authorization'', ''Bearer k'')],
       req_json = None, req_timeout = 30\<rparr>]"
proof -
  let ?e1 = "Map.empty(''VAPI_API_KEY'' \<mapsto> ''k'')"
  let ?e2 = "Map.empty(''VAPI_API_KEY'' \<mapsto> ''k'', ''VAPI_ASSISTANT_ID'' \<mapsto> ''a7'')"
  have k1: "resolve_api_key ?e1 [''main.py''] = Some ''k''"
    by (simp add: resolve_api_key_def or_str_def)
  have k2: "resolve_api_key ?e2 [''main.py''] = Some ''k''"
    by (simp add: resolve_api_key_def or_str_def)
  have ne: "''k'' \<noteq> []" by simp
  have a1: "resolve_assistant_id ?e1 [''main.py''] = None"
    by (simp add: resolve_assistant_id_def or_str_def)
  have a2: "resolve_assistant_id ?e2 [''main.py''] = Some ''a7''"
    by (simp add: resolve_assistant_id_def or_str_def)
  show ?thesis
    using list_runs_iff [OF k1 ne, of "\<lambda>r. None"] list_runs_iff [OF k2 ne, of "\<lambda>r. None"]
    by (simp add: a1 a2 resolve_api_url_def rstrip_slash_def)
qed

subsection \<open>A missing API key\<close>

text \<open>
  C5. Whenever no API key is resolved, that is \<^verbatim>\<open>VAPI_API_KEY\<close> is unset or empty and
  \<^verbatim>\<open>sys.argv\<close> has no first argument or an empty one, the program prints the error line
  and the usage text, returns 2 and sends no request.
\<close>

theorem main_without_api_key:
  assumes "environ ''VAPI_API_KEY'' = None \<or> environ ''VAPI_API_KEY'' = Some []"
      and "length argv \<le> 1 \<or> argv ! 1 = []"
  shows "main environ argv net =
           \<lparr>result = Exit 2,
            printed = [[Lit (cross_mark @ '' API key required'')], [Lit usage_text]],
            sent = []\<rparr>"
proof -
  have "\<not> truthy_str (resolve_api_key environ argv)"
    using assms by (auto simp: resolve_api_key_def or_str_def)
  then show ?thesis by (simp add: main_def)
qed

theorem main_without_api_key_witness:
  "main Map.empty [''main.py''] (\<lambda>r. None) =
     \<lparr>result = Exit 2,
      printed = [[Lit (cross_mark @ '' API key required'')], [Lit usage_text]],
      sent = []\<rparr>"
  using main_without_api_key [of Map.empty "[''main.py'']" "\<lambda>r. None"] by simp

subsection \<open>The shape of the List response\<close>

text \<open>
  C6, with the fallback made exact. On a status 200 List response whose body is a JSON sequence or
  object: a bare sequence is displayed as it is; else the object's \<^verbatim>\<open>assistants\<close>
  field when it is a non-empty sequence; else, when \<^verbatim>\<open>assistants\<close> is absent or false
  (empty, \<^verbatim>\<open>null\<close>), the \<^verbatim>\<open>data\<close> field when it is a non-empty sequence; and when both
  are absent or false, nothing but the heading is printed.
\<close>

theorem list_selects_assistants:
  assumes "net (list_request k u) = Some resp"
      and "status_code resp = 200"
      and "resp_json resp = Some body"
  shows "(body = JList xs \<longrightarrow>
            list_assistants net k u =
              \<lparr>result = Exit 0,
               printed = [Lit (nl @ ''=== Your Assistants ==='')] # concat (map show_assistant xs),
               sent = [list_request k u]\<rparr>)
       \<and> (body = JObj d \<and> map_of d ''assistants'' = Some (JList xs) \<and> xs \<noteq> [] \<longrightarrow>
            list_assistants net k u =
              \<lparr>result = Exit 0,
               printed = [Lit (nl @ ''=== Your Assistants ==='')] # concat (map show_assistant xs),
               sent = [list_request k u]\<rparr>)
       \<and> (body = JObj d \<and> \<not> truthy (dict_get d ''assistants'')
            \<and> map_of d ''data'' = Some (JList xs) \<and> xs \<noteq> [] \<longrightarrow>
            list_assistants net k u =
              \<lparr>result = Exit 0,
               printed = [Lit (nl @ ''=== Your Assistants ==='')] # concat (map show_assistant xs),
               sent = [list_request k u]\<rparr>)
       \<and> (body = JObj d \<and> \<not> truthy (dict_get d ''assistants'')
            \<and> \<not> truthy (dict_get d ''data'') \<longrightarrow>
            list_assistants net k u =
              \<lparr>result = Exit 0,
               printed = [[Lit (nl @ ''=== Your Assistants ==='')]],
               sent = [list_request k u]\<rparr>)"
  using assms
  by (auto simp: list_assistants_def py_or_def dict_get_def)

text \<open>
  The specification has every present \<^verbatim>\<open>assistants\<close> field displayed: an empty one
  is passed over and the entries of \<^verbatim>\<open>data\<close> are displayed.
\<close>

theorem empty_assistants_field_counterexample:
  "printed (list_assistants
      (\<lambda>r. Some \<lparr>status_code = 200, resp_text = [],
                 resp_json = Some (JObj
                   [(''assistants'', JList []),
                    (''data'', JList [JObj [(''name'', JStr ''A''), (''id'', JStr ''1'')]])])\<rparr>)
      ''k'' ''https://api.vapi.ai'') =
     [[Lit (nl @ ''=== Your Assistants ==='')],
      [Lit ''Name: '', Fmt (JStr ''A'')],
      [Lit ''ID:   '', Fmt (JStr ''1'')],
      [Lit ''----------------------------------------'']]
   \<and> printed (list_assistants
      (\<lambda>r. Some \<lparr>status_code = 200, resp_text = [],
                 resp_json = Some (JObj
                   [(''assistants'', JList []),
                    (''data'', JList [JObj [(''name'', JStr ''A''), (''id'', JStr ''1'')]])])\<rparr>)
      ''k'' ''https://api.vapi.ai'') \<noteq>
     [Lit (nl @ ''=== Your Assistants ==='')] # concat (map show_assistant [])"
  by (simp add: list_assistants_def py_or_def dict_get_def show_assistant_def numeral_eq_Suc)

theorem list_selects_assistants_witness:
  "printed (list_assistants
      (\<lambda>r. Some \<lparr>status_code = 200, resp_text = [],
                 resp_json = Some (JObj
                   [(''assistants'', JList [JObj [(''name'', JStr ''B''), (''id'', JStr ''2'')]]),
                    (''data'', JList [JObj [(''name'', JStr ''A''), (''id'', JStr ''1'')]])])\<rparr>)
      ''k'' ''https://api.vapi.ai'') =
     [[Lit (nl @ ''=== Your Assistants ==='')],
      [Lit ''Name: '', Fmt (JStr ''B'')],
      [Lit ''ID:   '', Fmt (JStr ''2'')],
      [Lit ''----------------------------------------'']]
   \<and> printed (list_assistants
      (\<lambda>r. Some \<lparr>status_code = 200, resp_text = [],
                 resp_json = Some (JObj
                   [(''assistants'', JNull),
                    (''data'', JList [JObj [(''name'', JStr ''A''), (''id'', JStr ''1'')]])])\<rparr>)
      ''k'' ''https://api.vapi.ai'') =
     [[Lit (nl @ ''=== Your Assistants ==='')],
      [Lit ''Name: '', Fmt (JStr ''A'')],
      [Lit ''ID:   '', Fmt (JStr ''1'')],
      [Lit ''----------------------------------------'']]"
proof -
  let ?A = "JObj [(''name'', JStr ''A''), (''id'', JStr ''1'')]"
  let ?B = "JObj [(''name'', JStr ''B''), (''id'', JStr ''2'')]"
  let ?d1 = "[(''assistants'', JList [?B]), (''data'', JList [?A])]"
  let ?d2 = "[(''assistants'', JNull), (''data'', JList [?A])]"
  let ?r1 = "\<lparr>status_code = 200, resp_text = [], resp_json = Some (JObj ?d1)\<rparr>"
  let ?r2 = "\<lparr>status_code = 200, resp_text = [], resp_json = Some (JObj ?d2)\<rparr>"
  have 1: "list_assistants (\<lambda>r. Some ?r1) ''k'' ''https://api.vapi.ai'' =
              \<lparr>result = Exit 0,
               printed = [Lit (nl @ ''=== Your Assistants ==='')] # concat (map show_assistant [?B]),
               sent = [list_request ''k'' ''https://api.vapi.ai'']\<rparr>"
    using list_selects_assistants [of "\<lambda>r. Some ?r1" "''k''" "''https://api.vapi.ai''" ?r1
             "JObj ?d1" "[?B]" ?d1]
    by simp
  have 2: "list_assistants (\<lambda>r. Some ?r2) ''k'' ''https://api.vapi.ai'' =
              \<lparr>result = Exit 0,
               printed = [Lit (nl @ ''=== Your Assistants ==='')] # concat (map show_assistant [?A]),
               sent = [list_request ''k'' ''https://api.vapi.ai'']\<rparr>"
    using list_selects_assistants [of "\<lambda>r. Some ?r2" "''k''" "''https://api.vapi.ai''" ?r2
             "JObj ?d2" "[?A]" ?d2]
    by (simp add: dict_get_def)
  show ?thesis
    by (simp add: 1 2 show_assistant_def dict_get_def numeral_eq_Suc)
qed

text \<open>
  C7. The three bodies \<^verbatim>\<open>{"assistants":[{"name":"A","id":"1"}]}\<close>,
  \<^verbatim>\<open>{"data":[{"name":"A","id":"1"}]}\<close> and \<^verbatim>\<open>[{"name":"A","id":"1"}]\<close> give the same run
  of the List operation: the heading, name A, id 1 and the rule line, exit code 0.
\<close>

theorem list_display_shape_independent:
  "list_assistants
     (\<lambda>r. Some \<lparr>status_code = 200, resp_text = t1,
                resp_json = Some (JObj [(''assistants'',
                  JList [JObj [(''name'', JStr ''A''), (''id'', JStr ''1'')]])])\<rparr>) k u =
     \<lparr>result = Exit 0,
      printed = [[Lit (nl @ ''=== Your Assistants ==='')],
                 [Lit ''Name: '', Fmt (JStr ''A'')],
                 [Lit ''ID:   '', Fmt (JStr ''1'')],
                 [Lit ''----------------------------------------'']],
      sent = [list_request k u]\<rparr>
   \<and> list_assistants
     (\<lambda>r. Some \<lparr>status_code = 200, resp_text = t2,
                resp_json = Some (JObj [(''data'',
                  JList [JObj [(''name'', JStr ''A''), (''id'', JStr ''1'')]])])\<rparr>) k u =
     \<lparr>result = Exit 0,
      printed = [[Lit (nl @ ''=== Your Assistants ==='')],
                 [Lit ''Name: '', Fmt (JStr ''A'')],
                 [Lit ''ID:   '', Fmt (JStr ''1'')],
                 [Lit ''----------------------------------------'']],
      sent = [list_request k u]\<rparr>
   \<and> list_assistants
     (\<lambda>r. Some \<lparr>status_code = 200, resp_text = t3,
                resp_json = Some (JList [JObj [(''name'', JStr ''A''), (''id'', JStr ''1'')]])\<rparr>) k u =
     \<lparr>result = Exit 0,
      printed = [[Lit (nl @ ''=== Your Assistants ==='')],
                 [Lit ''Name: '', Fmt (JStr ''A'')],
                 [Lit ''ID:   '', Fmt (JStr ''1'')],
                 [Lit ''----------------------------------------'']],
      sent = [list_request k u]\<rparr>"
  by (simp add: list_assistants_def py_or_def dict_get_def show_assistant_def numeral_eq_Suc)

subsection \<open>Idle messages in the Get report\<close>



subsection \<open>The bearer token\<close>

text \<open>
  C9. Every request that \<^verbatim>\<open>main\<close> sends carries the header
  \<^verbatim>\<open>Authorization: Bearer <api_key>\<close> with the resolved, non-empty key; each of the
  three operations puts that header on its request (a GET, a GET, a PATCH); and with no
  key resolved nothing is sent.
\<close>

theorem every_request_carries_bearer_token:
  "(\<forall>r \<in> set (sent (main environ argv net)).
      \<exists>k. resolve_api_key environ argv = Some k \<and> k \<noteq> []
          \<and> map_of (req_headers r) ''Authorization'' = Some (''Bearer '' @ k))
   \<and> (\<forall>r \<in> set (sent (list_assistants net api_key api_url)).
        req_method r = GET \<and> map_of (req_headers r) ''Authorization'' = Some (''Bearer '' @ api_key))
   \<and> (\<forall>r \<in> set (sent (get_assistant net api_key api_url assistant_id)).
        req_method r = GET \<and> map_of (req_headers r) ''Authorization'' = Some (''Bearer '' @ api_key))
   \<and> (\<forall>r \<in> set (sent (update_assistant_idle_messages net api_key api_url assistant_id)).
        req_method r = PATCH \<and> map_of (req_headers r) ''Authorization'' = Some (''Bearer '' @ api_key))
   \<and> (\<not> truthy_str (resolve_api_key environ argv) \<longrightarrow> sent (main environ argv net) = [])"
proof -
  have ops: "(\<forall>r \<in> set (sent (list_assistants net k u)).
        req_method r = GET \<and> map_of (req_headers r) ''Authorization'' = Some (''Bearer '' @ k))
   \<and> (\<forall>r \<in> set (sent (get_assistant net k u a)).
        req_method r = GET \<and> map_of (req_headers r) ''Authorization'' = Some (''Bearer '' @ k))
   \<and> (\<forall>r \<in> set (sent (update_assistant_idle_messages net k u a)).
        req_method r = PATCH \<and> map_of (req_headers r) ''Authorization'' = Some (''Bearer '' @ k))"
    for k u a
    by (simp add: sent_list_assistants sent_get_assistant sent_update
          list_request_def get_request_def update_request_def)
  have nokey: "\<not> truthy_str (resolve_api_key environ argv) \<Longrightarrow> sent (main environ argv net) = []"
    by (simp add: main_def)
  have m: "\<forall>r \<in> set (sent (main environ argv net)).
      \<exists>k. resolve_api_key environ argv = Some k \<and> k \<noteq> []
          \<and> map_of (req_headers r) ''Authorization'' = Some (''Bearer '' @ k)"
  proof (cases "truthy_str (resolve_api_key environ argv)")
    case True
    then obtain k where k: "resolve_api_key environ argv = Some k" "k \<noteq> []"
      using truthy_str_Some by blast
    show ?thesis
      using k ops [of k "resolve_api_url environ" "the (resolve_assistant_id environ argv)"]
      by (simp add: main_with_key [OF k] del: truthy_str.simps)
  next
    case False
    then show ?thesis by (simp add: nokey)
  qed
  show ?thesis using m ops [of api_key api_url assistant_id] nokey by blast
qed

theorem every_request_carries_bearer_token_witness:
  "sent (main (Map.empty(''VAPI_API_KEY'' \<mapsto> ''k'', ''VAPI_ASSISTANT_ID'' \<mapsto> ''a7''))
        [''main.py'', ''--update-idle''] (\<lambda>r. None)) \<noteq> []
   \<and> (\<exists>k. resolve_api_key (Map.empty(''VAPI_API_KEY'' \<mapsto> ''k'', ''VAPI_ASSISTANT_ID'' \<mapsto> ''a7''))
             [''main.py'', ''--update-idle''] = Some k \<and> k \<noteq> []
        \<and> map_of (req_headers (hd (sent (main
             (Map.empty(''VAPI_API_KEY'' \<mapsto> ''k'', ''VAPI_ASSISTANT_ID'' \<mapsto> ''a7''))
             [''main.py'', ''--update-idle''] (\<lambda>r. None))))) ''Authorization'' = Some (''Bearer '' @ k))
   \<and> sent (main Map.empty [''main.py''] (\<lambda>r. None)) = []"
proof -
  let ?e = "Map.empty(''VAPI_API_KEY'' \<mapsto> ''k'', ''VAPI_ASSISTANT_ID'' \<mapsto> ''a7'')"
  let ?a = "[''main.py'', ''--update-idle'']"
  let ?s = "sent (main ?e ?a (\<lambda>r. None))"
  have s: "?s = [update_request ''k'' ''https://api.vapi.ai'' ''a7'']"
    by (simp add: main_def resolve_api_key_def resolve_api_url_def resolve_assistant_id_def
          or_str_def sent_update)
  then have h: "hd ?s \<in> set ?s" by simp
  have 1: "\<exists>k. resolve_api_key ?e ?a = Some k \<and> k \<noteq> []
          \<and> map_of (req_headers (hd ?s)) ''Authorization'' = Some (''Bearer '' @ k)"
    using every_request_carries_bearer_token [of ?e ?a "\<lambda>r. None"] h by blast
  have "\<not> truthy_str (resolve_api_key Map.empty [''main.py''])"
    by (simp add: resolve_api_key_def or_str_def)
  then have 2: "sent (main Map.empty [''main.py''] (\<lambda>r. None)) = []"
    using every_request_carries_bearer_token [of Map.empty "[''main.py'']" "\<lambda>r. None"] by blast
  show ?thesis using s 1 2 by simp
qed

subsection \<open>A flag in the place of the key\<close>



end
